theory Spec2Isabelle
  imports Main
begin

section \<open>scripts/add\_widget\_target.py\<close>

text \<open>
  The script loads an Xcode project descriptor through the third-party \<open>pbxproj\<close>
  library, returns early when a target named \<open>DequeueWidgets\<close> exists, otherwise asks
  the library to add each shared source file that exists on disk to the \<open>Dequeue\<close>
  target, saves the project and prints follow-up instructions.

  The library is not part of the repository. It enters the model as a record of
  operations over an opaque project handle \<open>'p\<close> and opaque descriptor contents
  \<open>'d\<close>; every operation may raise. What the script does with the library, the file
  system and standard output is recorded, in order, as a list of events.
\<close>

subsection \<open>Paths\<close>

text \<open>One step of \<open>posixpath.join\<close>: an absolute component replaces what came before,
  otherwise the component is appended after exactly one separator.\<close>

definition join2 :: "string \<Rightarrow> string \<Rightarrow> string" where
  "join2 a b =
     (if b \<noteq> [] \<and> hd b = CHR ''/'' then b
      else if a = [] \<or> last a = CHR ''/'' then a @ b
      else a @ ''/'' @ b)"

definition os_path_join :: "string \<Rightarrow> string list \<Rightarrow> string" where
  "os_path_join a ps = foldl join2 a ps"

subsection \<open>Module constants\<close>

text \<open>The module-level names of the script. \<open>main\<close> reads them from the module
  namespace, so the model passes them as a record.\<close>

record globals =
  PROJECT_PATH :: string
  WIDGET_TARGET_NAME :: string
  WIDGET_BUNDLE_ID :: string
  WIDGET_SOURCES :: "string list"
  SHARED_SOURCES :: "string list"

text \<open>\<open>root\<close> stands for the value of
  \<open>os.path.dirname(os.path.dirname(os.path.abspath(__file__)))\<close>, the directory above
  \<open>scripts/\<close>.\<close>

definition module_globals :: "string \<Rightarrow> globals" where
  "module_globals root =
     \<lparr> PROJECT_PATH = os_path_join root [''Dequeue'', ''Dequeue.xcodeproj'', ''project.pbxproj''],
       WIDGET_TARGET_NAME = ''DequeueWidgets'',
       WIDGET_BUNDLE_ID = ''com.ardonos.Dequeue.widgets'',
       WIDGET_SOURCES =
         [''DequeueWidgets/DequeueWidgetBundle.swift'',
          ''DequeueWidgets/ActiveStackWidget.swift'',
          ''DequeueWidgets/UpNextWidget.swift'',
          ''DequeueWidgets/QuickStatsWidget.swift''],
       SHARED_SOURCES = [''Shared/WidgetModels.swift''] \<rparr>"

subsection \<open>The library surface and the file system\<close>

datatype exn = Exception string

datatype target = Target (name: string)

text \<open>
  \<^item> \<open>load path contents\<close>: \<open>XcodeProject.load(path)\<close>, given the contents of the file at
    \<open>path\<close> (\<open>None\<close> when there is no such file);
  \<^item> \<open>get_targets p\<close>: \<open>p.objects.get_targets()\<close>;
  \<^item> \<open>add_file path parent target_name p\<close>: \<open>p.add_file(path, parent=..., target_name=...)\<close>;
    the boolean is the truth value of what the call returns, which is all the script
    looks at, and the handle is the project after the call;
  \<^item> \<open>save p contents\<close>: \<open>p.save()\<close>, given the contents of the descriptor file before
    the call. When the call returns, the result is the contents it wrote. When it raises,
    the result is the exception together with whatever the call left in the file: the
    library opens the file for writing before it serialises, so a failing \<open>save\<close> may
    leave it truncated or half written.
\<close>

record ('p, 'd) XcodeProject =
  load :: "string \<Rightarrow> 'd option \<Rightarrow> exn + 'p"
  get_targets :: "'p \<Rightarrow> exn + target list"
  add_file :: "string \<Rightarrow> string option \<Rightarrow> string \<Rightarrow> 'p \<Rightarrow> exn + bool \<times> 'p"
  save :: "'p \<Rightarrow> 'd option \<Rightarrow> exn \<times> 'd option + 'd"

text \<open>The part of the file system the script deals with: the descriptor file's
  contents and which paths exist on disk.\<close>

record 'd world =
  descriptor :: "'d option"
  path_exists :: "string \<Rightarrow> bool"

datatype event =
    Print string
  | Call_load string
  | Call_get_targets
  | Call_exists string
  | Call_add_file string "string option" string
  | Ret_add_file bool
  | Call_save
  | Raise exn

datatype outcome = Returned | Raised exn

record 'd run =
  result :: outcome
  events :: "event list"
  after :: "'d world"

subsection \<open>main\<close>

text \<open>Lines 42-45: the scan of the targets for one whose name is the given one.\<close>

fun target_exists :: "string \<Rightarrow> target list \<Rightarrow> bool" where
  "target_exists n [] = False"
| "target_exists n (t # ts) = (if name t = n then True else target_exists n ts)"

definition full_path :: "string \<Rightarrow> string \<Rightarrow> string" where
  "full_path root source = os_path_join root [''Dequeue'', source]"

definition added_line :: "string \<Rightarrow> string" where
  "added_line source = ''  Added '' @ source @ '' to Dequeue target''"

definition may_exist_line :: "string \<Rightarrow> string" where
  "may_exist_line source = ''  '' @ source @ '' may already exist in project''"

text \<open>Lines 51-66: the loop over the shared sources. It returns the project handle
  after the loop, or the exception that ended it, with the events it produced.\<close>

fun add_shared_sources ::
  "('p, 'd) XcodeProject \<Rightarrow> string \<Rightarrow> (string \<Rightarrow> bool) \<Rightarrow> string list \<Rightarrow> 'p
     \<Rightarrow> (exn + 'p) \<times> event list" where
  "add_shared_sources L root ex [] project = (Inr project, [])"
| "add_shared_sources L root ex (source # rest) project =
     (if ex (full_path root source) then
        (case add_file L (full_path root source) None ''Dequeue'' project of
           Inl e \<Rightarrow>
             (Inl e,
              [Call_exists (full_path root source),
               Call_add_file (full_path root source) None ''Dequeue'',
               Raise e])
         | Inr (res, project') \<Rightarrow>
             (case add_shared_sources L root ex rest project' of
                (r, evs) \<Rightarrow>
                  (r,
                   [Call_exists (full_path root source),
                    Call_add_file (full_path root source) None ''Dequeue'',
                    Ret_add_file res,
                    Print (if res then added_line source else may_exist_line source)]
                   @ evs)))
      else
        (case add_shared_sources L root ex rest project of
           (r, evs) \<Rightarrow> (r, Call_exists (full_path root source) # evs)))"

text \<open>Lines 71-80: the closing block of output.\<close>

definition closing_lines :: "globals \<Rightarrow> string list" where
  "closing_lines g =
     [''Done! Shared files added to main Dequeue target.'',
      '''',
      ''NOTE: The widget extension target (DequeueWidgets) needs to be added'',
      ''through Xcode: File > New > Target > Widget Extension.'',
      ''Then add the widget source files to that target.'',
      '''',
      ''Widget files to add:'']
     @ map (\<lambda>source. ''  - Dequeue/'' @ source) (WIDGET_SOURCES g)
     @ [''  - Dequeue/Shared/WidgetModels.swift (add to BOTH targets)'']"

definition opening_events :: "globals \<Rightarrow> event list" where
  "opening_events g = [Print (''Loading project: '' @ PROJECT_PATH g), Call_load (PROJECT_PATH g)]"

definition skipping_line :: "globals \<Rightarrow> string" where
  "skipping_line g = ''Target '' @ [CHR 0x27] @ WIDGET_TARGET_NAME g @ [CHR 0x27] @ '' already exists. Skipping.''"

definition main_with ::
  "globals \<Rightarrow> string \<Rightarrow> ('p, 'd) XcodeProject \<Rightarrow> 'd world \<Rightarrow> 'd run" where
  "main_with g root L w =
     (case load L (PROJECT_PATH g) (descriptor w) of
        Inl e \<Rightarrow> \<lparr> result = Raised e, events = opening_events g @ [Raise e], after = w \<rparr>
      | Inr project \<Rightarrow>
          (case get_targets L project of
             Inl e \<Rightarrow>
               \<lparr> result = Raised e,
                 events = opening_events g @ [Call_get_targets, Raise e],
                 after = w \<rparr>
           | Inr targets \<Rightarrow>
               if target_exists (WIDGET_TARGET_NAME g) targets then
                 \<lparr> result = Returned,
                   events = opening_events g @ [Call_get_targets, Print (skipping_line g)],
                   after = w \<rparr>
               else
                 (case add_shared_sources L root (path_exists w) (SHARED_SOURCES g) project of
                    (Inl e, evs) \<Rightarrow>
                      \<lparr> result = Raised e,
                        events =
                          opening_events g
                          @ [Call_get_targets, Print ''Adding widget source files...'']
                          @ evs,
                        after = w \<rparr>
                  | (Inr project', evs) \<Rightarrow>
                      (case save L project' (descriptor w) of
                         Inl (e, left) \<Rightarrow>
                           \<lparr> result = Raised e,
                             events =
                               opening_events g
                               @ [Call_get_targets, Print ''Adding widget source files...'']
                               @ evs
                               @ [Print ''Saving project...'', Call_save, Raise e],
                             after = w\<lparr> descriptor := left \<rparr> \<rparr>
                       | Inr d \<Rightarrow>
                           \<lparr> result = Returned,
                             events =
                               opening_events g
                               @ [Call_get_targets, Print ''Adding widget source files...'']
                               @ evs
                               @ [Print ''Saving project...'', Call_save]
                               @ map Print (closing_lines g),
                             after = w\<lparr> descriptor := Some d \<rparr> \<rparr>))))"

text \<open>The script as it is: \<open>main\<close> under the module's own constants.\<close>

definition main :: "string \<Rightarrow> ('p, 'd) XcodeProject \<Rightarrow> 'd world \<Rightarrow> 'd run" where
  "main root = main_with (module_globals root) root"

subsection \<open>Reading the events of a run\<close>

fun printed :: "event list \<Rightarrow> string list" where
  "printed [] = []"
| "printed (Print s # evs) = s # printed evs"
| "printed (_ # evs) = printed evs"

fun exists_calls :: "event list \<Rightarrow> string list" where
  "exists_calls [] = []"
| "exists_calls (Call_exists q # evs) = q # exists_calls evs"
| "exists_calls (_ # evs) = exists_calls evs"

fun add_file_calls :: "event list \<Rightarrow> (string \<times> string option \<times> string) list" where
  "add_file_calls [] = []"
| "add_file_calls (Call_add_file q parent t # evs) = (q, parent, t) # add_file_calls evs"
| "add_file_calls (_ # evs) = add_file_calls evs"

fun add_file_returns :: "event list \<Rightarrow> bool list" where
  "add_file_returns [] = []"
| "add_file_returns (Ret_add_file b # evs) = b # add_file_returns evs"
| "add_file_returns (_ # evs) = add_file_returns evs"


fun is_raise :: "event \<Rightarrow> bool" where
  "is_raise (Raise e) = True"
| "is_raise _ = False"

fun is_exists_call :: "event \<Rightarrow> bool" where
  "is_exists_call (Call_exists q) = True"
| "is_exists_call _ = False"


subsection \<open>Small libraries to run the script against\<close>

text \<open>A project is a list of target names and a list of file references, and the
  descriptor file holds just that. \<open>appending_library\<close> adds a reference on every
  \<open>add_file\<close> and reports it; \<open>checking_library\<close> adds a reference only when the path is
  not referenced yet and reports whether it did; \<open>tidying_library\<close> is the latter with a
  \<open>save\<close> that writes every reference once; \<open>failing_library\<close> raises in the stage it is
  given, and its failing \<open>save\<close> leaves the descriptor file emptied.\<close>

type_synonym toy_project = "string list \<times> string list"

definition toy_load :: "string \<Rightarrow> toy_project option \<Rightarrow> exn + toy_project" where
  "toy_load q contents =
     (case contents of
        None \<Rightarrow> Inl (Exception (''FileNotFoundError: '' @ q))
      | Some d \<Rightarrow> Inr d)"

definition appending_library :: "(toy_project, toy_project) XcodeProject" where
  "appending_library =
     \<lparr> load = toy_load,
       get_targets = (\<lambda>p. Inr (map Target (fst p))),
       add_file = (\<lambda>q parent t p. Inr (True, (fst p, snd p @ [q]))),
       save = (\<lambda>p contents. Inr p) \<rparr>"

definition checking_library :: "(toy_project, toy_project) XcodeProject" where
  "checking_library =
     \<lparr> load = toy_load,
       get_targets = (\<lambda>p. Inr (map Target (fst p))),
       add_file = (\<lambda>q parent t p.
         if q \<in> set (snd p) then Inr (False, p) else Inr (True, (fst p, snd p @ [q]))),
       save = (\<lambda>p contents. Inr p) \<rparr>"


datatype stage = In_load | In_add_file | In_save

definition failing_library :: "stage \<Rightarrow> (toy_project, toy_project) XcodeProject" where
  "failing_library st =
     \<lparr> load = (\<lambda>q contents.
         if st = In_load then Inl (Exception ''load failed'') else toy_load q contents),
       get_targets = (\<lambda>p. Inr (map Target (fst p))),
       add_file = (\<lambda>q parent t p.
         if st = In_add_file then Inl (Exception ''add_file failed'')
         else Inr (True, (fst p, snd p @ [q]))),
       save = (\<lambda>p contents.
         if st = In_save then Inl (Exception ''save failed'', Some ([], [])) else Inr p) \<rparr>"

definition toy_world :: "toy_project option \<Rightarrow> string list \<Rightarrow> toy_project world" where
  "toy_world contents present =
     \<lparr> descriptor = contents,
       path_exists = (\<lambda>q. q \<in> set present) \<rparr>"

section \<open>Properties\<close>

subsection \<open>Auxiliary facts\<close>

lemma target_exists_iff: "target_exists n ts \<longleftrightarrow> n \<in> name ` set ts"
  by (induction ts) auto

lemma printed_append: "printed (xs @ ys) = printed xs @ printed ys"
  by (induction xs rule: printed.induct) simp_all

lemma exists_calls_append: "exists_calls (xs @ ys) = exists_calls xs @ exists_calls ys"
  by (induction xs rule: exists_calls.induct) simp_all

lemma add_file_calls_append: "add_file_calls (xs @ ys) = add_file_calls xs @ add_file_calls ys"
  by (induction xs rule: add_file_calls.induct) simp_all

lemma add_file_returns_append:
  "add_file_returns (xs @ ys) = add_file_returns xs @ add_file_returns ys"
  by (induction xs rule: add_file_returns.induct) simp_all

lemma printed_map_Print: "printed (map Print ls) = ls"
  by (induction ls) simp_all

lemma add_file_calls_map_Print: "add_file_calls (map Print ls) = []"
  by (induction ls) simp_all

text \<open>One pass of the loop body, for a source that is missing.\<close>

lemma loop_missing:
  "\<not> ex (full_path root s) \<Longrightarrow>
   add_shared_sources L root ex (s # rest) p =
     (fst (add_shared_sources L root ex rest p),
      Call_exists (full_path root s) # snd (add_shared_sources L root ex rest p))"
  by (simp split: prod.splits)

lemma loop_raises:
  "ex (full_path root s) \<Longrightarrow> add_file L (full_path root s) None ''Dequeue'' p = Inl e \<Longrightarrow>
   add_shared_sources L root ex (s # rest) p =
     (Inl e, [Call_exists (full_path root s), Call_add_file (full_path root s) None ''Dequeue'', Raise e])"
  by simp

lemma loop_returns:
  "ex (full_path root s) \<Longrightarrow> add_file L (full_path root s) None ''Dequeue'' p = Inr (b, p') \<Longrightarrow>
   add_shared_sources L root ex (s # rest) p =
     (fst (add_shared_sources L root ex rest p'),
      [Call_exists (full_path root s), Call_add_file (full_path root s) None ''Dequeue'',
       Ret_add_file b, Print (if b then added_line s else may_exist_line s)]
      @ snd (add_shared_sources L root ex rest p'))"
  by (simp split: prod.splits)

lemma loop_cases:
  obtains (missing) "\<not> ex (full_path root s)"
  | (raises) e where "ex (full_path root s)" "add_file L (full_path root s) None ''Dequeue'' p = Inl e"
  | (returns) b p' where "ex (full_path root s)" "add_file L (full_path root s) None ''Dequeue'' p = Inr (b, p')"
  by (cases "ex (full_path root s)"; cases "add_file L (full_path root s) None ''Dequeue'' p") auto

lemmas [simp del] = add_shared_sources.simps(2)

subsection \<open>The stages of main\<close>

lemma main_load_raises:
  "load L (PROJECT_PATH g) (descriptor w) = Inl e \<Longrightarrow>
   main_with g root L w =
     \<lparr> result = Raised e, events = opening_events g @ [Raise e], after = w \<rparr>"
  by (simp add: main_with_def)

lemma main_get_targets_raises:
  "load L (PROJECT_PATH g) (descriptor w) = Inr p \<Longrightarrow> get_targets L p = Inl e \<Longrightarrow>
   main_with g root L w =
     \<lparr> result = Raised e, events = opening_events g @ [Call_get_targets, Raise e], after = w \<rparr>"
  by (simp add: main_with_def)

lemma main_guard:
  "load L (PROJECT_PATH g) (descriptor w) = Inr p \<Longrightarrow> get_targets L p = Inr ts \<Longrightarrow>
   target_exists (WIDGET_TARGET_NAME g) ts \<Longrightarrow>
   main_with g root L w =
     \<lparr> result = Returned,
       events = opening_events g @ [Call_get_targets, Print (skipping_line g)],
       after = w \<rparr>"
  by (simp add: main_with_def)

lemma main_loop_raises:
  "load L (PROJECT_PATH g) (descriptor w) = Inr p \<Longrightarrow> get_targets L p = Inr ts \<Longrightarrow>
   \<not> target_exists (WIDGET_TARGET_NAME g) ts \<Longrightarrow>
   add_shared_sources L root (path_exists w) (SHARED_SOURCES g) p = (Inl e, evs) \<Longrightarrow>
   main_with g root L w =
     \<lparr> result = Raised e,
       events = opening_events g @ [Call_get_targets, Print ''Adding widget source files...''] @ evs,
       after = w \<rparr>"
  by (simp add: main_with_def)

lemma main_save_raises:
  "load L (PROJECT_PATH g) (descriptor w) = Inr p \<Longrightarrow> get_targets L p = Inr ts \<Longrightarrow>
   \<not> target_exists (WIDGET_TARGET_NAME g) ts \<Longrightarrow>
   add_shared_sources L root (path_exists w) (SHARED_SOURCES g) p = (Inr p', evs) \<Longrightarrow>
   save L p' (descriptor w) = Inl (e, left) \<Longrightarrow>
   main_with g root L w =
     \<lparr> result = Raised e,
       events = opening_events g @ [Call_get_targets, Print ''Adding widget source files...'']
         @ evs @ [Print ''Saving project...'', Call_save, Raise e],
       after = w\<lparr> descriptor := left \<rparr> \<rparr>"
  by (simp add: main_with_def)

lemma main_saves:
  "load L (PROJECT_PATH g) (descriptor w) = Inr p \<Longrightarrow> get_targets L p = Inr ts \<Longrightarrow>
   \<not> target_exists (WIDGET_TARGET_NAME g) ts \<Longrightarrow>
   add_shared_sources L root (path_exists w) (SHARED_SOURCES g) p = (Inr p', evs) \<Longrightarrow>
   save L p' (descriptor w) = Inr d \<Longrightarrow>
   main_with g root L w =
     \<lparr> result = Returned,
       events = opening_events g @ [Call_get_targets, Print ''Adding widget source files...'']
         @ evs @ [Print ''Saving project...'', Call_save] @ map Print (closing_lines g),
       after = w\<lparr> descriptor := Some d \<rparr> \<rparr>"
  by (simp add: main_with_def)

text \<open>Every run is in exactly one of the six stages.\<close>

lemma main_cases:
  obtains
    (load_raises) e where "load L (PROJECT_PATH g) (descriptor w) = Inl e"
  | (get_targets_raises) p e where
      "load L (PROJECT_PATH g) (descriptor w) = Inr p" "get_targets L p = Inl e"
  | (guard) p ts where
      "load L (PROJECT_PATH g) (descriptor w) = Inr p" "get_targets L p = Inr ts"
      "target_exists (WIDGET_TARGET_NAME g) ts"
  | (loop_raises) p ts e evs where
      "load L (PROJECT_PATH g) (descriptor w) = Inr p" "get_targets L p = Inr ts"
      "\<not> target_exists (WIDGET_TARGET_NAME g) ts"
      "add_shared_sources L root (path_exists w) (SHARED_SOURCES g) p = (Inl e, evs)"
  | (save_raises) p ts p' evs e left where
      "load L (PROJECT_PATH g) (descriptor w) = Inr p" "get_targets L p = Inr ts"
      "\<not> target_exists (WIDGET_TARGET_NAME g) ts"
      "add_shared_sources L root (path_exists w) (SHARED_SOURCES g) p = (Inr p', evs)"
      "save L p' (descriptor w) = Inl (e, left)"
  | (saves) p ts p' evs d where
      "load L (PROJECT_PATH g) (descriptor w) = Inr p" "get_targets L p = Inr ts"
      "\<not> target_exists (WIDGET_TARGET_NAME g) ts"
      "add_shared_sources L root (path_exists w) (SHARED_SOURCES g) p = (Inr p', evs)"
      "save L p' (descriptor w) = Inr d"
proof (cases "load L (PROJECT_PATH g) (descriptor w)")
  case (Inl e)
  then show ?thesis by (rule load_raises)
next
  case p: (Inr p)
  show ?thesis
  proof (cases "get_targets L p")
    case (Inl e)
    with p show ?thesis by (rule get_targets_raises)
  next
    case ts: (Inr ts)
    show ?thesis
    proof (cases "target_exists (WIDGET_TARGET_NAME g) ts")
      case True
      with p ts show ?thesis by (rule guard)
    next
      case no: False
      obtain r evs where
        loop: "add_shared_sources L root (path_exists w) (SHARED_SOURCES g) p = (r, evs)"
        by (cases "add_shared_sources L root (path_exists w) (SHARED_SOURCES g) p")
      show ?thesis
      proof (cases r)
        case (Inl e)
        with p ts no loop show ?thesis by (auto intro: loop_raises)
      next
        case p': (Inr p')
        show ?thesis
        proof (cases "save L p' (descriptor w)")
          case (Inl failure)
          with p ts no loop p' show ?thesis by (cases failure) (auto intro: save_raises)
        next
          case (Inr d)
          with p ts no loop p' show ?thesis by (auto intro: saves)
        qed
      qed
    qed
  qed
qed

subsection \<open>Claims\<close>

lemma path_eval [simp]:
  "PROJECT_PATH (module_globals ''/repo'') = ''/repo/Dequeue/Dequeue.xcodeproj/project.pbxproj''"
  "full_path ''/repo'' ''Shared/WidgetModels.swift'' = ''/repo/Dequeue/Shared/WidgetModels.swift''"
  by (simp_all add: module_globals_def full_path_def os_path_join_def join2_def)

text \<open>
  C2. When the loaded project has a target named \<open>DequeueWidgets\<close>, the run prints the
  "already exists" message and returns at once: \<open>add_file\<close> is never called, \<open>save\<close> is
  never called, and the world (the descriptor file included) is as it was.
\<close>

theorem guard_short_circuit:
  assumes "load L (PROJECT_PATH (module_globals root)) (descriptor w) = Inr p"
    and "get_targets L p = Inr ts"
    and "''DequeueWidgets'' \<in> name ` set ts"
  shows "result (main root L w) = Returned
       \<and> events (main root L w) =
           [Print (''Loading project: '' @ PROJECT_PATH (module_globals root)),
            Call_load (PROJECT_PATH (module_globals root)),
            Call_get_targets,
            Print ''Target 'DequeueWidgets' already exists. Skipping.'']
       \<and> add_file_calls (events (main root L w)) = []
       \<and> Call_save \<notin> set (events (main root L w))
       \<and> after (main root L w) = w"
proof -
  have "target_exists (WIDGET_TARGET_NAME (module_globals root)) ts"
    using assms(3) by (simp add: target_exists_iff module_globals_def)
  from main_guard [OF assms(1,2) this, of root]
  show ?thesis
    by (simp add: main_def opening_events_def skipping_line_def module_globals_def)
qed

theorem guard_short_circuit_witness:
  "load appending_library (PROJECT_PATH (module_globals ''/repo''))
      (descriptor (toy_world (Some ([''Dequeue'', ''DequeueWidgets''], [])) [])) =
     Inr ([''Dequeue'', ''DequeueWidgets''], [])
   \<and> get_targets appending_library ([''Dequeue'', ''DequeueWidgets''], []) =
       Inr [Target ''Dequeue'', Target ''DequeueWidgets'']
   \<and> ''DequeueWidgets'' \<in> name ` set [Target ''Dequeue'', Target ''DequeueWidgets'']
   \<and> result (main ''/repo'' appending_library
        (toy_world (Some ([''Dequeue'', ''DequeueWidgets''], [])) [])) = Returned
   \<and> Call_save \<notin> set (events (main ''/repo'' appending_library
        (toy_world (Some ([''Dequeue'', ''DequeueWidgets''], [])) [])))
   \<and> after (main ''/repo'' appending_library
        (toy_world (Some ([''Dequeue'', ''DequeueWidgets''], [])) [])) =
       toy_world (Some ([''Dequeue'', ''DequeueWidgets''], [])) []"
proof -
  have l: "load appending_library (PROJECT_PATH (module_globals ''/repo''))
      (descriptor (toy_world (Some ([''Dequeue'', ''DequeueWidgets''], [])) [])) =
     Inr ([''Dequeue'', ''DequeueWidgets''], [])"
    by (simp add: appending_library_def toy_load_def toy_world_def)
  have t: "get_targets appending_library ([''Dequeue'', ''DequeueWidgets''], []) =
       Inr [Target ''Dequeue'', Target ''DequeueWidgets'']"
    by (simp add: appending_library_def)
  have n: "''DequeueWidgets'' \<in> name ` set [Target ''Dequeue'', Target ''DequeueWidgets'']"
    by simp
  from guard_short_circuit [OF l t n] l t n show ?thesis by simp
qed

text \<open>
  C3 as stated: a listed shared source that is missing on disk is skipped without raising
  and a path-specific message is printed for it. The loop has no \<open>else\<close> branch at line 56:
  with the one listed file missing, the loop prints nothing, and the whole run prints the
  fixed lines only.
\<close>

theorem missing_source_message_counterexample:
  "\<not> path_exists (toy_world (Some ([''Dequeue''], [])) [])
        (full_path ''/repo'' ''Shared/WidgetModels.swift'')
   \<and> add_shared_sources appending_library ''/repo''
        (path_exists (toy_world (Some ([''Dequeue''], [])) []))
        (SHARED_SOURCES (module_globals ''/repo'')) ([''Dequeue''], []) =
       (Inr ([''Dequeue''], []), [Call_exists ''/repo/Dequeue/Shared/WidgetModels.swift''])
   \<and> result (main ''/repo'' appending_library (toy_world (Some ([''Dequeue''], [])) [])) = Returned
   \<and> printed (events (main ''/repo'' appending_library (toy_world (Some ([''Dequeue''], [])) []))) =
       [''Loading project: /repo/Dequeue/Dequeue.xcodeproj/project.pbxproj'',
        ''Adding widget source files...'',
        ''Saving project...'',
        ''Done! Shared files added to main Dequeue target.'',
        '''',
        ''NOTE: The widget extension target (DequeueWidgets) needs to be added'',
        ''through Xcode: File > New > Target > Widget Extension.'',
        ''Then add the widget source files to that target.'',
        '''',
        ''Widget files to add:'',
        ''  - Dequeue/DequeueWidgets/DequeueWidgetBundle.swift'',
        ''  - Dequeue/DequeueWidgets/ActiveStackWidget.swift'',
        ''  - Dequeue/DequeueWidgets/UpNextWidget.swift'',
        ''  - Dequeue/DequeueWidgets/QuickStatsWidget.swift'',
        ''  - Dequeue/Shared/WidgetModels.swift (add to BOTH targets)'']"
proof -
  have loop: "add_shared_sources appending_library ''/repo''
        (path_exists (toy_world (Some ([''Dequeue''], [])) []))
        (SHARED_SOURCES (module_globals ''/repo'')) ([''Dequeue''], []) =
       (Inr ([''Dequeue''], []), [Call_exists ''/repo/Dequeue/Shared/WidgetModels.swift''])"
    by (simp add: module_globals_def toy_world_def loop_missing)
  have run: "main ''/repo'' appending_library (toy_world (Some ([''Dequeue''], [])) []) =
     \<lparr> result = Returned,
       events = opening_events (module_globals ''/repo'')
         @ [Call_get_targets, Print ''Adding widget source files...'']
         @ [Call_exists ''/repo/Dequeue/Shared/WidgetModels.swift'']
         @ [Print ''Saving project...'', Call_save]
         @ map Print (closing_lines (module_globals ''/repo'')),
       after = (toy_world (Some ([''Dequeue''], [])) [])\<lparr> descriptor := Some ([''Dequeue''], []) \<rparr> \<rparr>"
    unfolding main_def
    by (rule main_saves [where p = "([''Dequeue''], [])" and ts = "[Target ''Dequeue'']"])
      (simp_all add: loop, simp_all add: appending_library_def toy_load_def toy_world_def module_globals_def)
  show ?thesis
    unfolding run loop
    by (simp add: toy_world_def printed_append printed_map_Print opening_events_def closing_lines_def)
      (simp add: module_globals_def)
qed

text \<open>
  C3, amended: a listed shared source that is missing on disk is skipped without raising
  and without printing anything, and the loop goes on with the rest of the list. Apart
  from the existence checks themselves, the loop does exactly what it does on the list
  with the missing files left out.
\<close>

theorem missing_sources_skipped_silently:
  "fst (add_shared_sources L root ex srcs p) =
     fst (add_shared_sources L root ex (filter (\<lambda>s. ex (full_path root s)) srcs) p)
   \<and> filter (\<lambda>e. \<not> is_exists_call e) (snd (add_shared_sources L root ex srcs p)) =
       filter (\<lambda>e. \<not> is_exists_call e)
         (snd (add_shared_sources L root ex (filter (\<lambda>s. ex (full_path root s)) srcs) p))"
proof (induction srcs arbitrary: p)
  case Nil
  show ?case by simp
next
  case (Cons s rest)
  show ?case
  proof (cases rule: loop_cases [where ex = ex and root = root and s = s and L = L and p = p])
    case missing
    then show ?thesis using Cons.IH [of p] by (simp add: loop_missing)
  next
    case (raises e)
    then show ?thesis by (simp add: loop_raises)
  next
    case (returns b p')
    then show ?thesis using Cons.IH [of p'] by (simp add: loop_returns)
  qed
qed

theorem missing_sources_skipped_silently_witness:
  "add_shared_sources checking_library ''/repo'' (\<lambda>q. q = ''/repo/Dequeue/b.swift'')
      [''a.swift'', ''b.swift''] ([''Dequeue''], []) =
     (Inr ([''Dequeue''], [''/repo/Dequeue/b.swift'']),
      [Call_exists ''/repo/Dequeue/a.swift'',
       Call_exists ''/repo/Dequeue/b.swift'',
       Call_add_file ''/repo/Dequeue/b.swift'' None ''Dequeue'',
       Ret_add_file True,
       Print ''  Added b.swift to Dequeue target''])
   \<and> fst (add_shared_sources checking_library ''/repo'' (\<lambda>q. q = ''/repo/Dequeue/b.swift'')
        [''a.swift'', ''b.swift''] ([''Dequeue''], [])) =
       fst (add_shared_sources checking_library ''/repo'' (\<lambda>q. q = ''/repo/Dequeue/b.swift'')
        [''b.swift''] ([''Dequeue''], []))"
proof -
  have fp: "full_path ''/repo'' ''a.swift'' = ''/repo/Dequeue/a.swift''"
    "full_path ''/repo'' ''b.swift'' = ''/repo/Dequeue/b.swift''"
    by (simp_all add: full_path_def os_path_join_def join2_def)
  have run: "add_shared_sources checking_library ''/repo'' (\<lambda>q. q = ''/repo/Dequeue/b.swift'')
      [''a.swift'', ''b.swift''] ([''Dequeue''], []) =
     (Inr ([''Dequeue''], [''/repo/Dequeue/b.swift'']),
      [Call_exists ''/repo/Dequeue/a.swift'',
       Call_exists ''/repo/Dequeue/b.swift'',
       Call_add_file ''/repo/Dequeue/b.swift'' None ''Dequeue'',
       Ret_add_file True,
       Print ''  Added b.swift to Dequeue target''])"
    by (simp add: add_shared_sources.simps(2) fp checking_library_def added_line_def)
  from missing_sources_skipped_silently
    [of checking_library "''/repo''" "\<lambda>q. q = ''/repo/Dequeue/b.swift''"
        "[''a.swift'', ''b.swift'']" "([''Dequeue''], [])"]
  show ?thesis using run by (simp add: fp)
qed

text \<open>
  C4. The loop checks every listed path, in list order; it calls \<open>add_file\<close>, for the
  target \<open>Dequeue\<close>, for exactly the paths that exist, in list order; and for each call
  that returns it prints the success line when the returned value is truthy and the
  "may already exist" line when it is falsy.
\<close>

theorem shared_loop_calls:
  assumes "fst (add_shared_sources L root ex srcs p) = Inr p'"
  shows "exists_calls (snd (add_shared_sources L root ex srcs p)) = map (full_path root) srcs
       \<and> add_file_calls (snd (add_shared_sources L root ex srcs p)) =
           map (\<lambda>s. (full_path root s, None, ''Dequeue''))
             (filter (\<lambda>s. ex (full_path root s)) srcs)
       \<and> length (add_file_returns (snd (add_shared_sources L root ex srcs p))) =
           length (filter (\<lambda>s. ex (full_path root s)) srcs)
       \<and> printed (snd (add_shared_sources L root ex srcs p)) =
           map2 (\<lambda>s b. if b then added_line s else may_exist_line s)
             (filter (\<lambda>s. ex (full_path root s)) srcs)
             (add_file_returns (snd (add_shared_sources L root ex srcs p)))"
  using assms
proof (induction srcs arbitrary: p)
  case Nil
  show ?case by simp
next
  case (Cons s rest)
  show ?case
  proof (cases rule: loop_cases [where ex = ex and root = root and s = s and L = L and p = p])
    case missing
    with Cons.prems have "fst (add_shared_sources L root ex rest p) = Inr p'"
      by (simp add: loop_missing)
    from Cons.IH [OF this] missing show ?thesis by (simp add: loop_missing)
  next
    case (raises e)
    with Cons.prems show ?thesis by (simp add: loop_raises)
  next
    case (returns b q)
    with Cons.prems have "fst (add_shared_sources L root ex rest q) = Inr p'"
      by (simp add: loop_returns)
    from Cons.IH [OF this] returns show ?thesis by (simp add: loop_returns)
  qed
qed

theorem shared_loop_calls_witness:
  "fst (add_shared_sources checking_library ''/repo'' (\<lambda>q. q \<noteq> ''/repo/Dequeue/b.swift'')
      [''a.swift'', ''b.swift'', ''a.swift''] ([''Dequeue''], [])) =
     Inr ([''Dequeue''], [''/repo/Dequeue/a.swift''])
   \<and> exists_calls (snd (add_shared_sources checking_library ''/repo''
        (\<lambda>q. q \<noteq> ''/repo/Dequeue/b.swift'')
        [''a.swift'', ''b.swift'', ''a.swift''] ([''Dequeue''], []))) =
       [''/repo/Dequeue/a.swift'', ''/repo/Dequeue/b.swift'', ''/repo/Dequeue/a.swift'']
   \<and> add_file_calls (snd (add_shared_sources checking_library ''/repo''
        (\<lambda>q. q \<noteq> ''/repo/Dequeue/b.swift'')
        [''a.swift'', ''b.swift'', ''a.swift''] ([''Dequeue''], []))) =
       [(''/repo/Dequeue/a.swift'', None, ''Dequeue''), (''/repo/Dequeue/a.swift'', None, ''Dequeue'')]
   \<and> add_file_returns (snd (add_shared_sources checking_library ''/repo''
        (\<lambda>q. q \<noteq> ''/repo/Dequeue/b.swift'')
        [''a.swift'', ''b.swift'', ''a.swift''] ([''Dequeue''], []))) = [True, False]
   \<and> printed (snd (add_shared_sources checking_library ''/repo''
        (\<lambda>q. q \<noteq> ''/repo/Dequeue/b.swift'')
        [''a.swift'', ''b.swift'', ''a.swift''] ([''Dequeue''], []))) =
       [''  Added a.swift to Dequeue target'', ''  a.swift may already exist in project'']"
proof -
  have fp: "full_path ''/repo'' ''a.swift'' = ''/repo/Dequeue/a.swift''"
    "full_path ''/repo'' ''b.swift'' = ''/repo/Dequeue/b.swift''"
    by (simp_all add: full_path_def os_path_join_def join2_def)
  have ret: "fst (add_shared_sources checking_library ''/repo''
      (\<lambda>q. q \<noteq> ''/repo/Dequeue/b.swift'')
      [''a.swift'', ''b.swift'', ''a.swift''] ([''Dequeue''], [])) =
     Inr ([''Dequeue''], [''/repo/Dequeue/a.swift''])"
    by (simp add: add_shared_sources.simps(2) fp checking_library_def)
  have rets: "add_file_returns (snd (add_shared_sources checking_library ''/repo''
        (\<lambda>q. q \<noteq> ''/repo/Dequeue/b.swift'')
        [''a.swift'', ''b.swift'', ''a.swift''] ([''Dequeue''], []))) = [True, False]"
    by (simp add: add_shared_sources.simps(2) fp checking_library_def)
  from shared_loop_calls [OF ret] show ?thesis
    using ret rets by (simp add: fp added_line_def may_exist_line_def)
qed

subsection \<open>More on the loop\<close>

lemma loop_append:
  "add_shared_sources L root ex (xs @ ys) p =
     (case add_shared_sources L root ex xs p of
        (Inl e, evs) \<Rightarrow> (Inl e, evs)
      | (Inr p1, evs) \<Rightarrow>
          (fst (add_shared_sources L root ex ys p1),
           evs @ snd (add_shared_sources L root ex ys p1)))"
proof (induction xs arbitrary: p)
  case Nil
  show ?case by simp
next
  case (Cons s rest)
  show ?case
  proof (cases rule: loop_cases [where ex = ex and root = root and s = s and L = L and p = p])
    case missing
    then show ?thesis
      using Cons.IH [of p] by (simp add: loop_missing split: prod.splits sum.splits)
  next
    case (raises e)
    then show ?thesis by (simp add: loop_raises)
  next
    case (returns b p')
    then show ?thesis
      using Cons.IH [of p'] by (simp add: loop_returns split: prod.splits sum.splits)
  qed
qed

text \<open>The loop calls nothing but \<open>os.path.exists\<close> and \<open>add_file\<close>.\<close>

lemma loop_events:
  "ev \<in> set (snd (add_shared_sources L root ex srcs p)) \<Longrightarrow>
   ev \<noteq> Call_save \<and> ev \<noteq> Call_get_targets \<and> (\<forall>q. ev \<noteq> Call_load q)"
proof (induction srcs arbitrary: p)
  case Nil
  then show ?case by simp
next
  case (Cons s rest)
  show ?case
  proof (cases rule: loop_cases [where ex = ex and root = root and s = s and L = L and p = p])
    case missing
    with Cons.prems Cons.IH [of p] show ?thesis by (auto simp: loop_missing)
  next
    case (raises e)
    with Cons.prems show ?thesis by (auto simp: loop_raises)
  next
    case (returns b p')
    with Cons.prems Cons.IH [of p'] show ?thesis by (auto simp: loop_returns)
  qed
qed

text \<open>A loop that completes raised nothing; a loop that raises ends there.\<close>

lemma loop_returned_no_raise:
  "fst (add_shared_sources L root ex srcs p) = Inr p' \<Longrightarrow>
   filter is_raise (snd (add_shared_sources L root ex srcs p)) = []"
proof (induction srcs arbitrary: p)
  case Nil
  show ?case by simp
next
  case (Cons s rest)
  show ?case
  proof (cases rule: loop_cases [where ex = ex and root = root and s = s and L = L and p = p])
    case missing
    with Cons.prems Cons.IH [of p] show ?thesis by (simp add: loop_missing)
  next
    case (raises e)
    with Cons.prems show ?thesis by (simp add: loop_raises)
  next
    case (returns b q)
    with Cons.prems Cons.IH [of q] show ?thesis by (simp add: loop_returns)
  qed
qed

lemma loop_raised_last:
  "fst (add_shared_sources L root ex srcs p) = Inl e \<Longrightarrow>
   \<exists>evs. snd (add_shared_sources L root ex srcs p) = evs @ [Raise e] \<and> filter is_raise evs = []"
proof (induction srcs arbitrary: p)
  case Nil
  then show ?case by simp
next
  case (Cons s rest)
  show ?case
  proof (cases rule: loop_cases [where ex = ex and root = root and s = s and L = L and p = p])
    case missing
    with Cons.prems have "fst (add_shared_sources L root ex rest p) = Inl e"
      by (simp add: loop_missing)
    from Cons.IH [OF this] obtain evs where
      "snd (add_shared_sources L root ex rest p) = evs @ [Raise e]" "filter is_raise evs = []"
      by blast
    with missing have
      "snd (add_shared_sources L root ex (s # rest) p) =
         (Call_exists (full_path root s) # evs) @ [Raise e]
       \<and> filter is_raise (Call_exists (full_path root s) # evs) = []"
      by (simp add: loop_missing)
    then show ?thesis by blast
  next
    case (raises e')
    with Cons.prems have
      "snd (add_shared_sources L root ex (s # rest) p) =
         [Call_exists (full_path root s), Call_add_file (full_path root s) None ''Dequeue'']
         @ [Raise e]
       \<and> filter is_raise
           [Call_exists (full_path root s), Call_add_file (full_path root s) None ''Dequeue''] = []"
      by (simp add: loop_raises)
    then show ?thesis by blast
  next
    case (returns b q)
    with Cons.prems have "fst (add_shared_sources L root ex rest q) = Inl e"
      by (simp add: loop_returns)
    from Cons.IH [OF this] obtain evs where
      "snd (add_shared_sources L root ex rest q) = evs @ [Raise e]" "filter is_raise evs = []"
      by blast
    with returns have
      "snd (add_shared_sources L root ex (s # rest) p) =
         ([Call_exists (full_path root s), Call_add_file (full_path root s) None ''Dequeue'',
           Ret_add_file b, Print (if b then added_line s else may_exist_line s)] @ evs)
         @ [Raise e]
       \<and> filter is_raise
           ([Call_exists (full_path root s), Call_add_file (full_path root s) None ''Dequeue'',
             Ret_add_file b, Print (if b then added_line s else may_exist_line s)] @ evs) = []"
      by (simp add: loop_returns)
    then show ?thesis by blast
  qed
qed

lemma filter_is_raise_map_Print: "filter is_raise (map Print ls) = []"
  by (induction ls) simp_all

lemma opening_no_raise: "filter is_raise (opening_events g) = []"
  by (simp add: opening_events_def)

lemma opening_no_save: "Call_save \<notin> set (opening_events g)"
  by (simp add: opening_events_def)

lemma no_raise_mem: "filter is_raise evs = [] \<Longrightarrow> Raise e \<notin> set evs"
  by (auto simp: filter_empty_conv)

text \<open>How a run that raised ends, and that a run that returned raised nothing.\<close>

lemma main_raised_shape:
  assumes "result (main_with g root L w) = Raised e"
  shows "\<exists>evs. events (main_with g root L w) = evs @ [Raise e] \<and> filter is_raise evs = []"
proof (cases rule: main_cases [where L = L and g = g and w = w and root = root])
  case (load_raises e')
  from main_load_raises [OF this, of root] assms
  have "events (main_with g root L w) = opening_events g @ [Raise e]"
    by simp
  with opening_no_raise [of g] show ?thesis by blast
next
  case (get_targets_raises p e')
  from main_get_targets_raises [OF this, of root] assms
  have "events (main_with g root L w) = (opening_events g @ [Call_get_targets]) @ [Raise e]"
    by simp
  moreover have "filter is_raise (opening_events g @ [Call_get_targets]) = []"
    by (simp add: opening_no_raise)
  ultimately show ?thesis by blast
next
  case (guard p ts)
  from main_guard [OF this, of root] assms show ?thesis by simp
next
  case (loop_raises p ts e' evs)
  from main_loop_raises [OF this] assms have e': "e' = e" by simp
  from loop_raises(4) have "fst (add_shared_sources L root (path_exists w) (SHARED_SOURCES g) p) = Inl e"
    by (simp add: e')
  from loop_raised_last [OF this] loop_raises(4) obtain evs0 where
    evs0: "evs = evs0 @ [Raise e]" "filter is_raise evs0 = []"
    by auto
  from main_loop_raises [OF loop_raises] evs0
  have "events (main_with g root L w) =
      (opening_events g @ [Call_get_targets, Print ''Adding widget source files...''] @ evs0)
      @ [Raise e]"
    by simp
  moreover have
    "filter is_raise
       (opening_events g @ [Call_get_targets, Print ''Adding widget source files...''] @ evs0) = []"
    by (simp add: opening_no_raise evs0)
  ultimately show ?thesis by blast
next
  case (save_raises p ts p' evs e' left)
  from save_raises(4) have "fst (add_shared_sources L root (path_exists w) (SHARED_SOURCES g) p) = Inr p'"
    by simp
  from loop_returned_no_raise [OF this] save_raises(4) have evs: "filter is_raise evs = []"
    by simp
  from main_save_raises [OF save_raises] assms
  have "events (main_with g root L w) =
      (opening_events g @ [Call_get_targets, Print ''Adding widget source files...''] @ evs
        @ [Print ''Saving project...'', Call_save]) @ [Raise e]"
    by simp
  moreover have
    "filter is_raise
       (opening_events g @ [Call_get_targets, Print ''Adding widget source files...''] @ evs
        @ [Print ''Saving project...'', Call_save]) = []"
    by (simp add: opening_no_raise evs)
  ultimately show ?thesis by blast
next
  case (saves p ts p' evs d)
  from main_saves [OF this] assms show ?thesis by simp
qed

lemma main_returned_no_raise:
  assumes "result (main_with g root L w) = Returned"
  shows "filter is_raise (events (main_with g root L w)) = []"
proof (cases rule: main_cases [where L = L and g = g and w = w and root = root])
  case (load_raises e')
  from main_load_raises [OF this, of root] assms show ?thesis by simp
next
  case (get_targets_raises p e')
  from main_get_targets_raises [OF this, of root] assms show ?thesis by simp
next
  case (guard p ts)
  from main_guard [OF this, of root] show ?thesis by (simp add: opening_no_raise)
next
  case (loop_raises p ts e' evs)
  from main_loop_raises [OF this] assms show ?thesis by simp
next
  case (save_raises p ts p' evs e' left)
  from main_save_raises [OF this] assms show ?thesis by simp
next
  case (saves p ts p' evs d)
  from saves(4) have "fst (add_shared_sources L root (path_exists w) (SHARED_SOURCES g) p) = Inr p'"
    by simp
  from loop_returned_no_raise [OF this] saves(4) have evs: "filter is_raise evs = []"
    by simp
  from main_saves [OF saves] show ?thesis
    by (simp add: opening_no_raise evs filter_is_raise_map_Print)
qed

lemma loop_raises_at:
  assumes "srcs = pre @ s # post"
    and "fst (add_shared_sources L root ex pre p) = Inr p1"
    and "ex (full_path root s)"
    and "add_file L (full_path root s) None ''Dequeue'' p1 = Inl e"
  shows "add_shared_sources L root ex srcs p =
     (Inl e,
      snd (add_shared_sources L root ex pre p)
      @ [Call_exists (full_path root s), Call_add_file (full_path root s) None ''Dequeue'', Raise e])"
proof -
  obtain evs where pre: "add_shared_sources L root ex pre p = (Inr p1, evs)"
    using assms(2) by (cases "add_shared_sources L root ex pre p") simp
  show ?thesis
    unfolding assms(1) loop_append pre
    using assms(3,4) by (simp add: loop_raises)
qed

text \<open>
  C5. \<open>main\<close> handles no exception. An exception raised by \<open>load\<close>, by an \<open>add_file\<close> call
  the loop reaches, or by \<open>save\<close> is the outcome of the run and its last event, so nothing
  is caught, retried or replaced by a fallback. After a failing \<open>load\<close> or \<open>add_file\<close>,
  \<open>save\<close> is not called and the descriptor file is as it was; after a failing \<open>save\<close> the
  file is in whatever state that call left it. In general a run raises exactly the
  exception some call raised, and raises once.
\<close>

theorem failures_propagate:
  fixes g :: globals and root :: string and L :: "('p, 'd) XcodeProject" and w :: "'d world"
  defines "r \<equiv> main_with g root L w"
  shows
    "(load L (PROJECT_PATH g) (descriptor w) = Inl e \<longrightarrow>
        result r = Raised e \<and> last (events r) = Raise e \<and> after r = w)
   \<and> (load L (PROJECT_PATH g) (descriptor w) = Inr p \<and> get_targets L p = Inr ts
      \<and> \<not> target_exists (WIDGET_TARGET_NAME g) ts
      \<and> SHARED_SOURCES g = pre @ s # post
      \<and> fst (add_shared_sources L root (path_exists w) pre p) = Inr p1
      \<and> path_exists w (full_path root s)
      \<and> add_file L (full_path root s) None ''Dequeue'' p1 = Inl e \<longrightarrow>
        result r = Raised e \<and> last (events r) = Raise e \<and> Call_save \<notin> set (events r)
        \<and> after r = w)
   \<and> (load L (PROJECT_PATH g) (descriptor w) = Inr p \<and> get_targets L p = Inr ts
      \<and> \<not> target_exists (WIDGET_TARGET_NAME g) ts
      \<and> fst (add_shared_sources L root (path_exists w) (SHARED_SOURCES g) p) = Inr p'
      \<and> save L p' (descriptor w) = Inl (e, left) \<longrightarrow>
        result r = Raised e \<and> last (events r) = Raise e \<and> descriptor (after r) = left)
   \<and> (Raise e \<in> set (events r)) = (result r = Raised e)
   \<and> (result r = Raised e \<longrightarrow>
        last (events r) = Raise e \<and> length (filter is_raise (events r)) = 1)"
proof (intro conjI impI)
  assume "load L (PROJECT_PATH g) (descriptor w) = Inl e"
  from main_load_raises [OF this, of root]
  show "result r = Raised e" "last (events r) = Raise e" "after r = w"
    by (simp_all add: r_def)
next
  assume a: "load L (PROJECT_PATH g) (descriptor w) = Inr p \<and> get_targets L p = Inr ts
      \<and> \<not> target_exists (WIDGET_TARGET_NAME g) ts
      \<and> SHARED_SOURCES g = pre @ s # post
      \<and> fst (add_shared_sources L root (path_exists w) pre p) = Inr p1
      \<and> path_exists w (full_path root s)
      \<and> add_file L (full_path root s) None ''Dequeue'' p1 = Inl e"
  then have h: "load L (PROJECT_PATH g) (descriptor w) = Inr p" "get_targets L p = Inr ts"
    "\<not> target_exists (WIDGET_TARGET_NAME g) ts" "SHARED_SOURCES g = pre @ s # post"
    "fst (add_shared_sources L root (path_exists w) pre p) = Inr p1"
    "path_exists w (full_path root s)"
    "add_file L (full_path root s) None ''Dequeue'' p1 = Inl e"
    by blast+
  have loop: "add_shared_sources L root (path_exists w) (SHARED_SOURCES g) p =
     (Inl e,
      snd (add_shared_sources L root (path_exists w) pre p)
      @ [Call_exists (full_path root s), Call_add_file (full_path root s) None ''Dequeue'', Raise e])"
    using h(4-7) by (rule loop_raises_at)
  have run: "r =
     \<lparr> result = Raised e,
       events = opening_events g @ [Call_get_targets, Print ''Adding widget source files...'']
         @ snd (add_shared_sources L root (path_exists w) pre p)
         @ [Call_exists (full_path root s), Call_add_file (full_path root s) None ''Dequeue'', Raise e],
       after = w \<rparr>"
    unfolding r_def using h(1-3) loop by (rule main_loop_raises)
  show "result r = Raised e" "last (events r) = Raise e" "after r = w"
    by (simp_all add: run)
  have "Call_save \<notin> set (snd (add_shared_sources L root (path_exists w) pre p))"
    using loop_events [of Call_save L root "path_exists w" pre p] by blast
  then show "Call_save \<notin> set (events r)"
    by (simp add: run opening_no_save)
next
  assume a: "load L (PROJECT_PATH g) (descriptor w) = Inr p \<and> get_targets L p = Inr ts
      \<and> \<not> target_exists (WIDGET_TARGET_NAME g) ts
      \<and> fst (add_shared_sources L root (path_exists w) (SHARED_SOURCES g) p) = Inr p'
      \<and> save L p' (descriptor w) = Inl (e, left)"
  then have h: "load L (PROJECT_PATH g) (descriptor w) = Inr p" "get_targets L p = Inr ts"
    "\<not> target_exists (WIDGET_TARGET_NAME g) ts"
    "fst (add_shared_sources L root (path_exists w) (SHARED_SOURCES g) p) = Inr p'"
    "save L p' (descriptor w) = Inl (e, left)"
    by blast+
  have loop: "add_shared_sources L root (path_exists w) (SHARED_SOURCES g) p =
      (Inr p', snd (add_shared_sources L root (path_exists w) (SHARED_SOURCES g) p))"
    using h(4) by (cases "add_shared_sources L root (path_exists w) (SHARED_SOURCES g) p") simp
  have run: "r =
     \<lparr> result = Raised e,
       events = opening_events g @ [Call_get_targets, Print ''Adding widget source files...'']
         @ snd (add_shared_sources L root (path_exists w) (SHARED_SOURCES g) p)
         @ [Print ''Saving project...'', Call_save, Raise e],
       after = w\<lparr> descriptor := left \<rparr> \<rparr>"
    unfolding r_def using h(1-3) loop h(5) by (rule main_save_raises)
  show "result r = Raised e" "last (events r) = Raise e" "descriptor (after r) = left"
    by (simp_all add: run)
next
  show "(Raise e \<in> set (events r)) = (result r = Raised e)"
  proof
    assume mem: "Raise e \<in> set (events r)"
    show "result r = Raised e"
    proof (cases "result r")
      case Returned
      from no_raise_mem [OF main_returned_no_raise [OF this [unfolded r_def]], of e] mem
      show ?thesis by (simp add: r_def)
    next
      case (Raised e')
      from main_raised_shape [OF this [unfolded r_def]] obtain evs where
        "events r = evs @ [Raise e']" "filter is_raise evs = []"
        unfolding r_def by blast
      with mem no_raise_mem [of evs e] have "e = e'"
        by auto
      with Raised show ?thesis by simp
    qed
  next
    assume "result r = Raised e"
    from main_raised_shape [OF this [unfolded r_def]] show "Raise e \<in> set (events r)"
      unfolding r_def by auto
  qed
next
  assume res: "result r = Raised e"
  from main_raised_shape [OF res [unfolded r_def]] obtain evs where
    evs: "events r = evs @ [Raise e]" "filter is_raise evs = []"
    unfolding r_def by blast
  show "last (events r) = Raise e" by (simp add: evs)
  show "length (filter is_raise (events r)) = 1" by (simp add: evs)
qed

theorem failures_propagate_witness:
  "load (failing_library In_load) (PROJECT_PATH (module_globals ''/repo''))
      (descriptor (toy_world (Some ([''Dequeue''], [])) [''/repo/Dequeue/Shared/WidgetModels.swift''])) =
     Inl (Exception ''load failed'')
   \<and> result (main ''/repo'' (failing_library In_load)
        (toy_world (Some ([''Dequeue''], [])) [''/repo/Dequeue/Shared/WidgetModels.swift''])) =
       Raised (Exception ''load failed'')
   \<and> add_file (failing_library In_add_file) (full_path ''/repo'' ''Shared/WidgetModels.swift'')
        None ''Dequeue'' ([''Dequeue''], []) =
       Inl (Exception ''add_file failed'')
   \<and> result (main ''/repo'' (failing_library In_add_file)
        (toy_world (Some ([''Dequeue''], [])) [''/repo/Dequeue/Shared/WidgetModels.swift''])) =
       Raised (Exception ''add_file failed'')
   \<and> Call_save \<notin> set (events (main ''/repo'' (failing_library In_add_file)
        (toy_world (Some ([''Dequeue''], [])) [''/repo/Dequeue/Shared/WidgetModels.swift''])))
   \<and> save (failing_library In_save) ([''Dequeue''], [''/repo/Dequeue/Shared/WidgetModels.swift''])
        (Some ([''Dequeue''], [])) =
       Inl (Exception ''save failed'', Some ([], []))
   \<and> result (main ''/repo'' (failing_library In_save)
        (toy_world (Some ([''Dequeue''], [])) [''/repo/Dequeue/Shared/WidgetModels.swift''])) =
       Raised (Exception ''save failed'')
   \<and> descriptor (after (main ''/repo'' (failing_library In_save)
        (toy_world (Some ([''Dequeue''], [])) [''/repo/Dequeue/Shared/WidgetModels.swift'']))) =
       Some ([], [])"
proof -
  let ?w = "toy_world (Some ([''Dequeue''], [])) [''/repo/Dequeue/Shared/WidgetModels.swift'']"
  let ?g = "module_globals ''/repo''"
  let ?f = "''/repo/Dequeue/Shared/WidgetModels.swift''"
  have w: "descriptor ?w = Some ([''Dequeue''], [])" "path_exists ?w ?f"
    by (simp_all add: toy_world_def)
  have g: "WIDGET_TARGET_NAME ?g = ''DequeueWidgets''"
    "SHARED_SOURCES ?g = [] @ ''Shared/WidgetModels.swift'' # []"
    by (simp_all add: module_globals_def)
  have l1: "load (failing_library In_load) (PROJECT_PATH ?g) (descriptor ?w) =
      Inl (Exception ''load failed'')"
    by (simp add: failing_library_def)
  have c1: "result (main ''/repo'' (failing_library In_load) ?w) = Raised (Exception ''load failed'')"
    using failures_propagate
      [where L = "failing_library In_load" and g = ?g and root = "''/repo''" and w = ?w
        and e = "Exception ''load failed''", THEN conjunct1, THEN mp, OF l1]
    by (simp add: main_def)
  have l2: "load (failing_library In_add_file) (PROJECT_PATH ?g) (descriptor ?w) =
        Inr ([''Dequeue''], [])
      \<and> get_targets (failing_library In_add_file) ([''Dequeue''], []) = Inr [Target ''Dequeue'']
      \<and> \<not> target_exists (WIDGET_TARGET_NAME ?g) [Target ''Dequeue'']
      \<and> SHARED_SOURCES ?g = [] @ ''Shared/WidgetModels.swift'' # []
      \<and> fst (add_shared_sources (failing_library In_add_file) ''/repo'' (path_exists ?w) []
            ([''Dequeue''], [])) = Inr ([''Dequeue''], [])
      \<and> path_exists ?w (full_path ''/repo'' ''Shared/WidgetModels.swift'')
      \<and> add_file (failing_library In_add_file) (full_path ''/repo'' ''Shared/WidgetModels.swift'')
            None ''Dequeue'' ([''Dequeue''], []) = Inl (Exception ''add_file failed'')"
    by (simp add: w g) (simp add: failing_library_def toy_load_def)
  have c2: "result (main ''/repo'' (failing_library In_add_file) ?w) =
        Raised (Exception ''add_file failed'')
      \<and> Call_save \<notin> set (events (main ''/repo'' (failing_library In_add_file) ?w))"
    using failures_propagate
      [where L = "failing_library In_add_file" and g = ?g and root = "''/repo''" and w = ?w
        and e = "Exception ''add_file failed''" and p = "([''Dequeue''], [])"
        and ts = "[Target ''Dequeue'']" and pre = "[]" and s = "''Shared/WidgetModels.swift''"
        and post = "[]" and ?p1.0 = "([''Dequeue''], [])",
        THEN conjunct2, THEN conjunct1, THEN mp, OF l2]
    by (simp add: main_def)
  have loop3: "add_shared_sources (failing_library In_save) ''/repo'' (path_exists ?w)
      (SHARED_SOURCES ?g) ([''Dequeue''], []) =
     (Inr ([''Dequeue''], [?f]),
      [Call_exists ?f, Call_add_file ?f None ''Dequeue'', Ret_add_file True,
       Print (added_line ''Shared/WidgetModels.swift'')])"
    by (simp add: module_globals_def add_shared_sources.simps(2) w) (simp add: failing_library_def)
  have l3: "load (failing_library In_save) (PROJECT_PATH ?g) (descriptor ?w) =
        Inr ([''Dequeue''], [])
      \<and> get_targets (failing_library In_save) ([''Dequeue''], []) = Inr [Target ''Dequeue'']
      \<and> \<not> target_exists (WIDGET_TARGET_NAME ?g) [Target ''Dequeue'']
      \<and> fst (add_shared_sources (failing_library In_save) ''/repo'' (path_exists ?w)
            (SHARED_SOURCES ?g) ([''Dequeue''], [])) = Inr ([''Dequeue''], [?f])
      \<and> save (failing_library In_save) ([''Dequeue''], [?f]) (descriptor ?w) =
          Inl (Exception ''save failed'', Some ([], []))"
    unfolding loop3 by (simp add: w g) (simp add: failing_library_def toy_load_def)
  have c3: "result (main ''/repo'' (failing_library In_save) ?w) = Raised (Exception ''save failed'')
      \<and> descriptor (after (main ''/repo'' (failing_library In_save) ?w)) = Some ([], [])"
    using failures_propagate
      [where L = "failing_library In_save" and g = ?g and root = "''/repo''" and w = ?w
        and e = "Exception ''save failed''" and p = "([''Dequeue''], [])"
        and ts = "[Target ''Dequeue'']" and p' = "([''Dequeue''], [?f])"
        and left = "Some ([], [])",
        THEN conjunct2, THEN conjunct2, THEN conjunct1, THEN mp, OF l3]
    by (simp add: main_def)
  show ?thesis
    using l1 c1 l2 c2 l3 c3 w by simp
qed

subsection \<open>The loop as library calls\<close>


lemma loop_no_save: "filter (\<lambda>ev. ev = Call_save) (snd (add_shared_sources L root ex srcs p)) = []"
  using loop_events [of _ L root ex srcs p] by (auto simp: filter_empty_conv)

lemma map_Print_no_save: "filter (\<lambda>ev. ev = Call_save) (map Print ls) = []"
  by (induction ls) simp_all

lemma opening_no_save_filter: "filter (\<lambda>ev. ev = Call_save) (opening_events g) = []"
  by (simp add: opening_events_def)

text \<open>
  C9. When the guard does not fire and the loop completes, \<open>save\<close> is called exactly once,
  after every event of the loop, whatever the loop did (also when no file was added), and
  when \<open>save\<close> returns, what it wrote is the descriptor file.
\<close>

theorem save_called_once:
  assumes "load L (PROJECT_PATH g) (descriptor w) = Inr p"
    and "get_targets L p = Inr ts"
    and "\<not> target_exists (WIDGET_TARGET_NAME g) ts"
    and "fst (add_shared_sources L root (path_exists w) (SHARED_SOURCES g) p) = Inr p'"
  shows "length (filter (\<lambda>ev. ev = Call_save) (events (main_with g root L w))) = 1
       \<and> events (main_with g root L w) =
           opening_events g @ [Call_get_targets, Print ''Adding widget source files...'']
           @ snd (add_shared_sources L root (path_exists w) (SHARED_SOURCES g) p)
           @ [Print ''Saving project...'', Call_save]
           @ (case save L p' (descriptor w) of
                Inl failure \<Rightarrow> [Raise (fst failure)]
              | Inr d' \<Rightarrow> map Print (closing_lines g))
       \<and> (save L p' (descriptor w) = Inr d \<longrightarrow>
            descriptor (after (main_with g root L w)) = Some d)"
proof -
  have loop: "add_shared_sources L root (path_exists w) (SHARED_SOURCES g) p =
      (Inr p', snd (add_shared_sources L root (path_exists w) (SHARED_SOURCES g) p))"
    using assms(4) by (cases "add_shared_sources L root (path_exists w) (SHARED_SOURCES g) p") simp
  show ?thesis
  proof (cases "save L p' (descriptor w)")
    case (Inl failure)
    then have "save L p' (descriptor w) = Inl (fst failure, snd failure)" by simp
    from main_save_raises [OF assms(1-3) loop this] Inl show ?thesis
      by (simp add: loop_no_save opening_no_save_filter)
  next
    case (Inr d')
    from main_saves [OF assms(1-3) loop Inr] Inr show ?thesis
      by (simp add: loop_no_save opening_no_save_filter map_Print_no_save)
  qed
qed

theorem save_called_once_witness:
  "add_file_calls (events (main ''/repo'' appending_library (toy_world (Some ([''Dequeue''], [])) []))) = []
   \<and> length (filter (\<lambda>ev. ev = Call_save)
        (events (main ''/repo'' appending_library (toy_world (Some ([''Dequeue''], [])) [])))) = 1
   \<and> descriptor (after (main ''/repo'' appending_library (toy_world (Some ([''Dequeue''], [])) []))) =
       Some ([''Dequeue''], [])"
proof -
  let ?w = "toy_world (Some ([''Dequeue''], [])) []"
  let ?g = "module_globals ''/repo''"
  have l: "load appending_library (PROJECT_PATH ?g) (descriptor ?w) = Inr ([''Dequeue''], [])"
    by (simp add: toy_world_def appending_library_def toy_load_def)
  have t: "get_targets appending_library ([''Dequeue''], []) = Inr [Target ''Dequeue'']"
    by (simp add: appending_library_def)
  have n: "\<not> target_exists (WIDGET_TARGET_NAME ?g) [Target ''Dequeue'']"
    by (simp add: module_globals_def)
  have loop: "add_shared_sources appending_library ''/repo'' (path_exists ?w) (SHARED_SOURCES ?g)
      ([''Dequeue''], []) = (Inr ([''Dequeue''], []), [Call_exists ''/repo/Dequeue/Shared/WidgetModels.swift''])"
    by (simp add: module_globals_def toy_world_def loop_missing)
  have f: "fst (add_shared_sources appending_library ''/repo'' (path_exists ?w) (SHARED_SOURCES ?g)
      ([''Dequeue''], [])) = Inr ([''Dequeue''], [])"
    by (simp add: loop)
  have s: "save appending_library ([''Dequeue''], []) (descriptor ?w) = Inr ([''Dequeue''], [])"
    by (simp add: appending_library_def)
  from save_called_once [OF l t n f, of "([''Dequeue''], [])"] show ?thesis
    unfolding main_def loop s
    by (simp add: add_file_calls_append add_file_calls_map_Print opening_events_def)
qed




subsection \<open>The arguments of add\_file\<close>







subsection \<open>Running the script twice\<close>

lemma add_file_returns_map_Print: "add_file_returns (map Print ls) = []"
  by (induction ls) simp_all

text \<open>
  C1. A second run is meant to find the shared file already added: lines 63-66 read a
  falsy result of \<open>add_file\<close> as "may already exist in project". The call at lines 58-62
  does not ask the library to look for an existing reference, though, and against a
  library whose \<open>add_file\<close> adds a reference each time it is called the second run adds
  the file once more, prints the success line again and saves a descriptor that holds the
  reference twice.
\<close>

theorem second_run_adds_again:
  "result (main ''/repo'' appending_library
      (toy_world (Some ([''Dequeue''], [])) [''/repo/Dequeue/Shared/WidgetModels.swift''])) = Returned
   \<and> descriptor (after (main ''/repo'' appending_library
        (toy_world (Some ([''Dequeue''], [])) [''/repo/Dequeue/Shared/WidgetModels.swift'']))) =
       Some ([''Dequeue''], [''/repo/Dequeue/Shared/WidgetModels.swift''])
   \<and> ''  Added Shared/WidgetModels.swift to Dequeue target''
        \<in> set (printed (events (main ''/repo'' appending_library
            (after (main ''/repo'' appending_library
              (toy_world (Some ([''Dequeue''], [])) [''/repo/Dequeue/Shared/WidgetModels.swift'']))))))
   \<and> add_file_returns (events (main ''/repo'' appending_library
        (after (main ''/repo'' appending_library
          (toy_world (Some ([''Dequeue''], [])) [''/repo/Dequeue/Shared/WidgetModels.swift'']))))) =
       [True]
   \<and> descriptor (after (main ''/repo'' appending_library
        (after (main ''/repo'' appending_library
          (toy_world (Some ([''Dequeue''], [])) [''/repo/Dequeue/Shared/WidgetModels.swift'']))))) =
       Some ([''Dequeue''],
         [''/repo/Dequeue/Shared/WidgetModels.swift'', ''/repo/Dequeue/Shared/WidgetModels.swift''])"
proof -
  let ?f = "''/repo/Dequeue/Shared/WidgetModels.swift''"
  let ?w = "toy_world (Some ([''Dequeue''], [])) [?f]"
  let ?g = "module_globals ''/repo''"
  have t: "get_targets appending_library ([''Dequeue''], fs) = Inr [Target ''Dequeue'']" for fs
    by (simp add: appending_library_def)
  have n: "\<not> target_exists (WIDGET_TARGET_NAME ?g) [Target ''Dequeue'']"
    by (simp add: module_globals_def)
  have s: "save appending_library ([''Dequeue''], fs) contents = Inr ([''Dequeue''], fs)"
    for fs contents
    by (simp add: appending_library_def)
  have l1: "load appending_library (PROJECT_PATH ?g) (descriptor ?w) = Inr ([''Dequeue''], [])"
    by (simp add: toy_world_def appending_library_def toy_load_def)
  have loop1: "add_shared_sources appending_library ''/repo'' (path_exists ?w) (SHARED_SOURCES ?g)
      ([''Dequeue''], []) =
     (Inr ([''Dequeue''], [?f]),
      [Call_exists ?f, Call_add_file ?f None ''Dequeue'', Ret_add_file True,
       Print (added_line ''Shared/WidgetModels.swift'')])"
    by (simp add: module_globals_def add_shared_sources.simps(2) toy_world_def)
      (simp add: appending_library_def)
  note run1 = main_saves [OF l1 t n loop1 s]
  let ?w1 = "?w\<lparr> descriptor := Some ([''Dequeue''], [?f]) \<rparr>"
  have w1: "after (main ''/repo'' appending_library ?w) = ?w1"
    unfolding main_def run1 by simp
  have l2: "load appending_library (PROJECT_PATH ?g) (descriptor ?w1) = Inr ([''Dequeue''], [?f])"
    by (simp add: appending_library_def toy_load_def)
  have loop2: "add_shared_sources appending_library ''/repo'' (path_exists ?w1) (SHARED_SOURCES ?g)
      ([''Dequeue''], [?f]) =
     (Inr ([''Dequeue''], [?f, ?f]),
      [Call_exists ?f, Call_add_file ?f None ''Dequeue'', Ret_add_file True,
       Print (added_line ''Shared/WidgetModels.swift'')])"
    by (simp add: module_globals_def add_shared_sources.simps(2) toy_world_def)
      (simp add: appending_library_def)
  note run2 = main_saves [OF l2 t n loop2 s]
  have r1: "result (main ''/repo'' appending_library ?w) = Returned"
    "descriptor (after (main ''/repo'' appending_library ?w)) = Some ([''Dequeue''], [?f])"
    unfolding main_def run1 by simp_all
  have r2: "''  Added Shared/WidgetModels.swift to Dequeue target''
      \<in> set (printed (events (main ''/repo'' appending_library ?w1)))"
    "add_file_returns (events (main ''/repo'' appending_library ?w1)) = [True]"
    "descriptor (after (main ''/repo'' appending_library ?w1)) = Some ([''Dequeue''], [?f, ?f])"
    unfolding main_def run2
    by (simp_all add: opening_events_def add_file_returns_append printed_append
        add_file_returns_map_Print added_line_def)
  show ?thesis
    unfolding w1 using r1 r2 by simp
qed

text \<open>
  C10. The constant \<open>WIDGET_BUNDLE_ID\<close> is never read: whatever value it has, a run
  gives the same outcome, the same events (so the same output and the same library
  calls) and the same world afterwards.
\<close>

theorem bundle_id_unused:
  "main_with (g\<lparr> WIDGET_BUNDLE_ID := b \<rparr>) root L w = main_with g root L w"
  by (simp add: main_with_def opening_events_def skipping_line_def closing_lines_def
      cong: sum.case_cong prod.case_cong if_cong)

end
